theory Spec2Isabelle
  imports Main "HOL-Library.Sublist"
begin

section \<open>Shared model of the web framework's request context\<close>

text \<open>
  Go strings are byte sequences: \<open>string\<close> here. \<open>http.Header\<close> is
  \<open>map[string][]string\<close>: a partial map from keys to value lists.
\<close>

type_synonym Header = "string \<rightharpoonup> string list"

text \<open>
  \<open>http.Header.Get(key)\<close>: the first value stored under the key, and the empty
  string when the key is missing or holds no value.
\<close>

definition Get :: "Header \<Rightarrow> string \<Rightarrow> string" where
  "Get h key = (case h key of None \<Rightarrow> [] | Some [] \<Rightarrow> [] | Some (v # _) \<Rightarrow> v)"

record Request =
  Method :: string
  Host :: string
  Header :: Header

text \<open>
  The framework (gin) is not part of the repository. What a middleware does to the
  response is recorded as the sequence of operations it performs on the context, in the
  order it performs them:
  \<^item> \<open>WriteEntries h\<close>: the loop \<open>for key, value := range h { header[key] = value }\<close>
    over \<open>c.Writer.Header()\<close>;
  \<^item> \<open>CallHeader key value\<close>: the call \<open>c.Header(key, value)\<close>;
  \<^item> \<open>CallAbortWithStatus code\<close>: the call \<open>c.AbortWithStatus(code)\<close>.
\<close>

datatype effect =
    WriteEntries Header
  | CallHeader string string
  | CallAbortWithStatus int

record Context =
  Request :: Request
  effects :: "effect list"

definition Context_Header :: "Context \<Rightarrow> string \<Rightarrow> string \<Rightarrow> Context" where
  "Context_Header c key v = c\<lparr>effects := effects c @ [CallHeader key v]\<rparr>"

definition AbortWithStatus :: "Context \<Rightarrow> int \<Rightarrow> Context" where
  "AbortWithStatus c code = c\<lparr>effects := effects c @ [CallAbortWithStatus code]\<rparr>"

text \<open>
  The meaning of the operations, by the framework's documented contract:
  \<open>c.Header(key, value)\<close> sets the response header to the single value, and removes
  the header when the value is empty; \<open>c.AbortWithStatus(code)\<close> sets the status code
  and prevents pending handlers from being called.
\<close>

record Response =
  respHeader :: Header
  respStatus :: int
  respAborted :: bool

fun perform :: "Response \<Rightarrow> effect \<Rightarrow> Response" where
  "perform r (WriteEntries h) = r\<lparr>respHeader := respHeader r ++ h\<rparr>"
| "perform r (CallHeader key v) =
     (if v = [] then r\<lparr>respHeader := (respHeader r)(key := None)\<rparr>
      else r\<lparr>respHeader := (respHeader r)(key \<mapsto> [v])\<rparr>)"
| "perform r (CallAbortWithStatus code) = r\<lparr>respStatus := code, respAborted := True\<rparr>"

definition response :: "Response \<Rightarrow> Context \<Rightarrow> Response" where
  "response r0 c = foldl perform r0 (effects c)"

definition IsAborted :: "Context \<Rightarrow> bool" where
  "IsAborted c = (\<exists>e \<in> set (effects c). case e of CallAbortWithStatus _ \<Rightarrow> True | _ \<Rightarrow> False)"

text \<open>
  Run-time panics of the Go code are values: an index out of range, the panic of
  \<open>newCors\<close> on an invalid configuration, and a panic raised inside a function value
  that the caller configured.
\<close>

datatype panic = IndexOutOfRange | ConfigPanic string | CallbackPanic string

text \<open>
  The framework's handler chain (\<open>c.Next()\<close>): handlers run in order until one of them
  aborts the context; a panic propagates.
\<close>

fun serve :: "(Context \<Rightarrow> panic + Context) list \<Rightarrow> Context \<Rightarrow> panic + Context" where
  "serve [] c = Inr c"
| "serve (h # hs) c =
     (case h c of
        Inl e \<Rightarrow> Inl e
      | Inr c' \<Rightarrow> if IsAborted c' then Inr c' else serve hs c')"

section \<open>gcors: the origin policy\<close>

text \<open>
  The two predicates are function values supplied by the caller (\<open>None\<close> for \<open>nil\<close>).
  Calling one returns a boolean or panics, so a call is visible in the result of the
  caller: \<open>Inl\<close> is the panic.
\<close>

record gCors =
  allowAllOrigins :: bool
  allowCredentials :: bool
  allowOriginFunc :: "(string \<Rightarrow> panic + bool) option"
  allowOriginWithContextFunc :: "(Context \<Rightarrow> string \<Rightarrow> panic + bool) option"
  allowOrigins :: "string list"
  normalHeaders :: Header
  preflightHeaders :: Header
  wildcardOrigins :: "string list list"
  optionsResponseStatusCode :: int

text \<open>\<open>strings.HasPrefix\<close> and \<open>strings.HasSuffix\<close>, as the Go library computes them.\<close>

definition HasPrefix :: "string \<Rightarrow> string \<Rightarrow> bool" where
  "HasPrefix s p = (length p \<le> length s \<and> take (length p) s = p)"

definition HasSuffix :: "string \<Rightarrow> string \<Rightarrow> bool" where
  "HasSuffix s x = (length x \<le> length s \<and> drop (length s - length x) s = x)"

text \<open>Indexing a slice panics out of range.\<close>

definition at :: "string list \<Rightarrow> nat \<Rightarrow> panic + string" where
  "at w i = (if i < length w then Inr (w ! i) else Inl IndexOutOfRange)"

text \<open>
  The body of the loop of \<open>validateWildcardOrigin\<close> for one rule \<open>w\<close>:
  \<open>Inr True\<close> is \<open>return true\<close>, \<open>Inr False\<close> falls through to the next rule.
  The three conditions are evaluated left to right, \<open>&&\<close> skipping its right operand.
\<close>

definition matchRule :: "string list \<Rightarrow> string \<Rightarrow> panic + bool" where
  "matchRule w origin =
     (case at w 0 of
        Inl e \<Rightarrow> Inl e
      | Inr w0 \<Rightarrow>
          (case (if w0 = ''*''
                 then (case at w 1 of Inl e \<Rightarrow> Inl e | Inr w1 \<Rightarrow> Inr (HasSuffix origin w1))
                 else Inr False) of
             Inl e \<Rightarrow> Inl e
           | Inr True \<Rightarrow> Inr True
           | Inr False \<Rightarrow>
               (case at w 1 of
                  Inl e \<Rightarrow> Inl e
                | Inr w1 \<Rightarrow>
                    if w1 = ''*'' \<and> HasPrefix origin w0 then Inr True
                    else if HasPrefix origin w0 \<and> HasSuffix origin w1 then Inr True
                    else Inr False)))"

fun wildcardLoop :: "string list list \<Rightarrow> string \<Rightarrow> panic + bool" where
  "wildcardLoop [] origin = Inr False"
| "wildcardLoop (w # ws) origin =
     (case matchRule w origin of
        Inl e \<Rightarrow> Inl e
      | Inr True \<Rightarrow> Inr True
      | Inr False \<Rightarrow> wildcardLoop ws origin)"

definition validateWildcardOrigin :: "gCors \<Rightarrow> string \<Rightarrow> panic + bool" where
  "validateWildcardOrigin g origin = wildcardLoop (wildcardOrigins g) origin"

text \<open>The loop \<open>for _, value := range allowOrigins { if value == origin { return true } }\<close>.\<close>

fun exactLoop :: "string list \<Rightarrow> string \<Rightarrow> bool" where
  "exactLoop [] origin = False"
| "exactLoop (v # vs) origin = (if v = origin then True else exactLoop vs origin)"

definition validateOrigin :: "gCors \<Rightarrow> string \<Rightarrow> panic + bool" where
  "validateOrigin g origin =
     (if allowAllOrigins g then Inr True
      else if exactLoop (allowOrigins g) origin then Inr True
      else
        (case (if length (wildcardOrigins g) > 0 then validateWildcardOrigin g origin
               else Inr False) of
           Inl e \<Rightarrow> Inl e
         | Inr True \<Rightarrow> Inr True
         | Inr False \<Rightarrow>
             (case allowOriginFunc g of
                Some f \<Rightarrow> f origin
              | None \<Rightarrow> Inr False)))"

definition isOriginValid :: "gCors \<Rightarrow> Context \<Rightarrow> string \<Rightarrow> panic + bool" where
  "isOriginValid g c origin =
     (case validateOrigin g origin of
        Inl e \<Rightarrow> Inl e
      | Inr valid \<Rightarrow>
          (case allowOriginWithContextFunc g of
             Some h \<Rightarrow> if \<not> valid then h c origin else Inr valid
           | None \<Rightarrow> Inr valid))"

definition handlePreflight :: "gCors \<Rightarrow> Context \<Rightarrow> Context" where
  "handlePreflight g c = c\<lparr>effects := effects c @ [WriteEntries (preflightHeaders g)]\<rparr>"

definition handleNormal :: "gCors \<Rightarrow> Context \<Rightarrow> Context" where
  "handleNormal g c = c\<lparr>effects := effects c @ [WriteEntries (normalHeaders g)]\<rparr>"

text \<open>
  \<open>applyCors\<close>. The deferred \<open>c.AbortWithStatus(optionsResponseStatusCode)\<close> of the
  preflight branch runs when the function returns, so after the echo of the origin.
\<close>

definition applyCors :: "gCors \<Rightarrow> Context \<Rightarrow> panic + Context" where
  "applyCors g c =
     (let origin = Get (Header (Request c)) ''Origin'' in
      if length origin = 0 then Inr c
      else
        let host = Host (Request c) in
        if origin = ''http://'' @ host \<or> origin = ''https://'' @ host then Inr c
        else
          (case isOriginValid g c origin of
             Inl e \<Rightarrow> Inl e
           | Inr valid \<Rightarrow>
               if \<not> valid then Inr (AbortWithStatus c 403)
               else
                 let preflight = (Method (Request c) = ''OPTIONS'');
                     c1 = (if preflight then handlePreflight g c else handleNormal g c);
                     c2 = (if \<not> allowAllOrigins g
                           then Context_Header c1 ''Access-Control-Allow-Origin'' origin
                           else c1)
                 in Inr (if preflight then AbortWithStatus c2 (optionsResponseStatusCode g)
                         else c2)))"

text \<open>
  \<open>newCors\<close>. The configuration type and the helpers \<open>Validate\<close>, \<open>normalize\<close>,
  \<open>generateNormalHeaders\<close>, \<open>generatePreflightHeaders\<close> and \<open>parseWildcardRules\<close>
  are declared elsewhere in the package: the record holds the fields that \<open>newCors\<close>
  reads (the others live in the record's extension), and the helpers are parameters.
  \<open>Validate\<close> returns the error message, \<open>None\<close> for \<open>nil\<close>.
\<close>

record Config =
  AllowAllOrigins :: bool
  AllowOrigins :: "string list"
  AllowOriginFunc :: "(string \<Rightarrow> panic + bool) option"
  AllowOriginWithContextFunc :: "(Context \<Rightarrow> string \<Rightarrow> panic + bool) option"
  AllowCredentials :: bool
  OptionsResponseStatusCode :: int

record 'z ConfigHelpers =
  Validate :: "'z Config_scheme \<Rightarrow> string option"
  normalize :: "string list \<Rightarrow> string list"
  generateNormalHeaders :: "'z Config_scheme \<Rightarrow> Header"
  generatePreflightHeaders :: "'z Config_scheme \<Rightarrow> Header"
  parseWildcardRules :: "'z Config_scheme \<Rightarrow> string list list"

text \<open>
  The loop \<open>for _, origin := range config.AllowOrigins { if origin == "*" {
  config.AllowAllOrigins = true } }\<close> on the function's own copy of the configuration.
\<close>

fun promoteLoop :: "string list \<Rightarrow> 'z Config_scheme \<Rightarrow> 'z Config_scheme" where
  "promoteLoop [] config = config"
| "promoteLoop (origin # rest) config =
     promoteLoop rest (if origin = ''*'' then config\<lparr>AllowAllOrigins := True\<rparr> else config)"

definition newCors :: "'z ConfigHelpers \<Rightarrow> 'z Config_scheme \<Rightarrow> panic + gCors" where
  "newCors H config0 =
     (case Validate H config0 of
        Some err \<Rightarrow> Inl (ConfigPanic err)
      | None \<Rightarrow>
          let config1 = promoteLoop (AllowOrigins config0) config0;
              config = (if OptionsResponseStatusCode config1 = 0
                        then config1\<lparr>OptionsResponseStatusCode := 204\<rparr>
                        else config1)
          in Inr \<lparr> allowAllOrigins = AllowAllOrigins config,
                   allowCredentials = AllowCredentials config,
                   allowOriginFunc = AllowOriginFunc config,
                   allowOriginWithContextFunc = AllowOriginWithContextFunc config,
                   allowOrigins = normalize H (AllowOrigins config),
                   normalHeaders = generateNormalHeaders H config,
                   preflightHeaders = generatePreflightHeaders H config,
                   wildcardOrigins = parseWildcardRules H config,
                   optionsResponseStatusCode = OptionsResponseStatusCode config \<rparr>)"

text \<open>What it means for a two-part rule to match, in the words of the specification.\<close>

definition ruleMatches :: "string \<Rightarrow> string \<Rightarrow> string \<Rightarrow> bool" where
  "ruleMatches pre suf origin \<longleftrightarrow>
     (pre = ''*'' \<and> suffix suf origin)
     \<or> (suf = ''*'' \<and> prefix pre origin)
     \<or> (prefix pre origin \<and> suffix suf origin)"

text \<open>
  The request classes of the specification: a cross-origin request carries a non-empty
  \<open>Origin\<close> header that is neither \<open>http://host\<close> nor \<open>https://host\<close> for its own
  host.
\<close>

definition crossOrigin :: "Context \<Rightarrow> string \<Rightarrow> bool" where
  "crossOrigin c origin \<longleftrightarrow>
     origin = Get (Header (Request c)) ''Origin''
     \<and> origin \<noteq> []
     \<and> origin \<noteq> ''http://'' @ Host (Request c)
     \<and> origin \<noteq> ''https://'' @ Host (Request c)"

text \<open>Every stored wildcard rule has its two parts.\<close>

definition twoPart :: "gCors \<Rightarrow> bool" where
  "twoPart g \<longleftrightarrow> (\<forall>w \<in> set (wildcardOrigins g). 2 \<le> length w)"

text \<open>
  Wildcard rules that the scan reads and passes over: each has its two parts and does not
  match the origin.
\<close>

definition passedOver :: "string list list \<Rightarrow> string \<Rightarrow> bool" where
  "passedOver ws origin \<longleftrightarrow>
     (\<forall>w \<in> set ws. 2 \<le> length w \<and> \<not> ruleMatches (w ! 0) (w ! 1) origin)"

text \<open>The plain predicate does not accept: it is not configured, or it returns false.\<close>

definition plainDeclines :: "gCors \<Rightarrow> string \<Rightarrow> bool" where
  "plainDeclines g origin \<longleftrightarrow>
     (case allowOriginFunc g of None \<Rightarrow> True | Some f \<Rightarrow> f origin = Inr False)"

text \<open>The operations a handler added to the context, between \<open>c\<close> and \<open>c'\<close>.\<close>

definition added :: "Context \<Rightarrow> Context \<Rightarrow> effect list" where
  "added c c' = drop (length (effects c)) (effects c')"

text \<open>The calls \<open>c.Header("Access-Control-Allow-Origin", _)\<close> among some operations.\<close>

definition echoes :: "effect list \<Rightarrow> string list" where
  "echoes es =
     concat (map (\<lambda>e. case e of
                        CallHeader key v \<Rightarrow>
                          if key = ''Access-Control-Allow-Origin'' then [v] else []
                      | _ \<Rightarrow> []) es)"

section \<open>ip_white: the address allowlist\<close>

text \<open>
  \<open>net.ParseIP\<close>, \<open>net.ParseCIDR\<close>, \<open>IPNet.Contains\<close> and \<open>strings.TrimSpace\<close>
  belong to the Go library and \<open>c.ClientIP()\<close> to the framework: they are parameters.
  \<open>ParseIP\<close> returns \<open>None\<close> for \<open>nil\<close>, \<open>ParseCIDR\<close> returns \<open>None\<close> when it
  returns an error.
\<close>

record ('ip, 'net) NetLib =
  ParseIP :: "string \<Rightarrow> 'ip option"
  ParseCIDR :: "string \<Rightarrow> 'net option"
  Contains :: "'net \<Rightarrow> 'ip \<Rightarrow> bool"
  TrimSpace :: "string \<Rightarrow> string"
  ClientIP :: "Context \<Rightarrow> string"

text \<open>\<open>strings.Contains(s, "/")\<close>.\<close>

definition ContainsSlash :: "string \<Rightarrow> bool" where
  "ContainsSlash s = (CHR ''/'' \<in> set s)"

fun whiteLoop :: "('ip, 'net) NetLib \<Rightarrow> string \<Rightarrow> 'ip \<Rightarrow> string list \<Rightarrow> bool" where
  "whiteLoop L ip ipAddr [] = False"
| "whiteLoop L ip ipAddr (allowedIP # rest) =
     (if ContainsSlash allowedIP then
        (case ParseCIDR L allowedIP of
           None \<Rightarrow> whiteLoop L ip ipAddr rest
         | Some ipNet \<Rightarrow>
             if Contains L ipNet ipAddr then True else whiteLoop L ip ipAddr rest)
      else if TrimSpace L allowedIP = ip then True
      else whiteLoop L ip ipAddr rest)"

definition isIPWhite :: "('ip, 'net) NetLib \<Rightarrow> string \<Rightarrow> string list \<Rightarrow> bool" where
  "isIPWhite L ip whitelist =
     (case ParseIP L ip of
        None \<Rightarrow> False
      | Some ipAddr \<Rightarrow> whiteLoop L ip ipAddr whitelist)"

record option_white =
  WhiteList :: "string list"

type_synonym Option_white = "option_white \<Rightarrow> option_white"

definition WithIpWhite :: "string list \<Rightarrow> Option_white" where
  "WithIpWhite ips = (\<lambda>cfg. cfg\<lparr>WhiteList := ips\<rparr>)"

text \<open>
  \<open>New\<close>: the options are applied in order to the zero value of \<open>option\<close>; the result
  is the handler.
\<close>

definition ip_white_New :: "('ip, 'net) NetLib \<Rightarrow> Option_white list \<Rightarrow> Context \<Rightarrow> Context" where
  "ip_white_New L opts =
     (let cfg = foldl (\<lambda>cfg opt. opt cfg) \<lparr>WhiteList = []\<rparr> opts in
      (\<lambda>c. if \<not> isIPWhite L (ClientIP L c) (WhiteList cfg)
            then AbortWithStatus c 403
            else c))"

section \<open>logger: exclusion labels\<close>

text \<open>
  \<open>regexp.MatchString(pattern, label)\<close> is a parameter: \<open>Inl err\<close> when the pattern
  does not compile, \<open>Inr matched\<close> otherwise.
\<close>

type_synonym MatchString = "string \<Rightarrow> string \<Rightarrow> string + bool"

fun labelLoop :: "MatchString \<Rightarrow> string \<Rightarrow> string list \<Rightarrow> bool" where
  "labelLoop M label [] = True"
| "labelLoop M label (pattern # rest) =
     (if pattern = [] then True
      else
        (case M pattern label of
           Inl err \<Rightarrow> True
         | Inr matched \<Rightarrow> if matched then False else labelLoop M label rest))"

definition checkLabel :: "MatchString \<Rightarrow> string \<Rightarrow> string list \<Rightarrow> bool" where
  "checkLabel M label patterns =
     (if length patterns \<le> 0 then True else labelLoop M label patterns)"

text \<open>
  A pattern that lets the scan go on to the next one: it is not empty, it compiles, and it
  does not match the label.
\<close>

definition passes :: "MatchString \<Rightarrow> string \<Rightarrow> string \<Rightarrow> bool" where
  "passes M label pattern \<longleftrightarrow> pattern \<noteq> [] \<and> M pattern label = Inr False"

definition bad :: "MatchString \<Rightarrow> string \<Rightarrow> string \<Rightarrow> bool" where
  "bad M label pattern \<longleftrightarrow>
     pattern = [] \<or> (case M pattern label of Inl err \<Rightarrow> True | Inr matched \<Rightarrow> False)"

definition hits :: "MatchString \<Rightarrow> string \<Rightarrow> string \<Rightarrow> bool" where
  "hits M label pattern \<longleftrightarrow> pattern \<noteq> [] \<and> M pattern label = Inr True"

section \<open>Example inputs\<close>

text \<open>Concrete policies, requests and library stand-ins, used to instantiate the theorems.\<close>

definition examplePolicy :: gCors where
  "examplePolicy =
     \<lparr> allowAllOrigins = False,
       allowCredentials = False,
       allowOriginFunc = Some (\<lambda>origin. Inr (origin = ''https://special.test'')),
       allowOriginWithContextFunc = None,
       allowOrigins = [''https://example.com''],
       normalHeaders = [''Access-Control-Expose-Headers'' \<mapsto> [''X-Total'']],
       preflightHeaders = [''Access-Control-Allow-Methods'' \<mapsto> [''GET,POST'']],
       wildcardOrigins = [ [''https://'', ''.example.com''] ],
       optionsResponseStatusCode = 204 \<rparr>"

definition exampleContext :: "string \<Rightarrow> string \<Rightarrow> Context" where
  "exampleContext method origin =
     \<lparr> Request = \<lparr> Method = method, Host = ''api.test'',
                     Header = [''Origin'' \<mapsto> [origin]] \<rparr>,
       effects = [] \<rparr>"

definition exampleResponse :: Response where
  "exampleResponse = \<lparr> respHeader = Map.empty, respStatus = 200, respAborted = False \<rparr>"

definition exampleHelpers :: "unit ConfigHelpers" where
  "exampleHelpers =
     \<lparr> Validate = (\<lambda>config. if \<not> AllowAllOrigins config \<and> AllowOrigins config = []
                               then Some ''conflict settings: all origins disabled''
                               else None),
       normalize = (\<lambda>origins. origins),
       generateNormalHeaders = (\<lambda>config. Map.empty),
       generatePreflightHeaders =
         (\<lambda>config. [''Access-Control-Allow-Methods'' \<mapsto> [''GET,POST'']]),
       parseWildcardRules = (\<lambda>config. []) \<rparr>"

definition exampleConfig :: Config where
  "exampleConfig =
     \<lparr> AllowAllOrigins = False,
       AllowOrigins = [''https://example.com'', ''*''],
       AllowOriginFunc = None,
       AllowOriginWithContextFunc = None,
       AllowCredentials = False,
       OptionsResponseStatusCode = 0 \<rparr>"

definition examplePromoted :: gCors where
  "examplePromoted =
     \<lparr> allowAllOrigins = True,
       allowCredentials = False,
       allowOriginFunc = None,
       allowOriginWithContextFunc = None,
       allowOrigins = [''https://example.com'', ''*''],
       normalHeaders = Map.empty,
       preflightHeaders = [''Access-Control-Allow-Methods'' \<mapsto> [''GET,POST'']],
       wildcardOrigins = [],
       optionsResponseStatusCode = 204 \<rparr>"

text \<open>
  Predicates that panic as soon as they are called, and a policy rigged with them: its
  second wildcard rule has no parts, so everything after the first rule panics when it is
  reached.
\<close>

definition trapFunc :: "string \<Rightarrow> panic + bool" where
  "trapFunc origin = Inl (CallbackPanic ''allowOriginFunc called'')"

definition trapContextFunc :: "Context \<Rightarrow> string \<Rightarrow> panic + bool" where
  "trapContextFunc c origin = Inl (CallbackPanic ''allowOriginWithContextFunc called'')"

definition trapPolicy :: gCors where
  "trapPolicy =
     examplePolicy\<lparr> allowOriginFunc := Some trapFunc,
                    allowOriginWithContextFunc := Some trapContextFunc,
                    wildcardOrigins := [ [''https://'', ''.example.com''], [] ] \<rparr>"

text \<open>A policy whose single wildcard rule has no parts: reading it panics.\<close>

definition brokenPolicy :: gCors where
  "brokenPolicy = examplePolicy\<lparr>wildcardOrigins := [ [] ]\<rparr>"

definition exampleNet :: "(nat, nat \<times> nat) NetLib" where
  "exampleNet =
     \<lparr> ParseIP = map_of [(''10.0.0.7'', 7), (''10.0.1.9'', 265)],
       ParseCIDR = map_of [(''10.0.1.0/24'', (256, 256))],
       Contains = (\<lambda>(first, size) addr. first \<le> addr \<and> addr < first + size),
       TrimSpace = (\<lambda>s. rev (dropWhile (\<lambda>x. x = CHR '' '')
                              (rev (dropWhile (\<lambda>x. x = CHR '' '') s)))),
       ClientIP = (\<lambda>c. Get (Header (Request c)) ''X-Real-Ip'') \<rparr>"

definition exampleClient :: "string \<Rightarrow> Context" where
  "exampleClient ip =
     \<lparr> Request = \<lparr> Method = ''GET'', Host = ''api.test'',
                     Header = [''X-Real-Ip'' \<mapsto> [ip]] \<rparr>,
       effects = [] \<rparr>"

definition exampleMatch :: MatchString where
  "exampleMatch pattern label =
     (if pattern = ''('' then Inl ''missing closing )'' else Inr (prefix pattern label))"

section \<open>Auxiliary facts\<close>

subsection \<open>Wildcard rules\<close>

lemma HasPrefix_prefix: "HasPrefix s p \<longleftrightarrow> prefix p s"
  unfolding HasPrefix_def prefix_def
  by (metis append_eq_conv_conj append_take_drop_id length_append le_add1)

lemma HasSuffix_suffix: "HasSuffix s x \<longleftrightarrow> suffix x s"
proof
  assume "HasSuffix s x"
  then have "drop (length s - length x) s = x"
    by (simp add: HasSuffix_def)
  then show "suffix x s"
    by (metis suffix_drop)
next
  assume "suffix x s"
  then obtain zs where "s = zs @ x"
    by (auto simp: suffix_def)
  then show "HasSuffix s x"
    by (simp add: HasSuffix_def)
qed

lemma matchRule_short: "length w < 2 \<Longrightarrow> matchRule w origin = Inl IndexOutOfRange"
  by (cases w) (auto simp: matchRule_def at_def split: sum.splits bool.splits)

lemma matchRule_pair:
  "2 \<le> length w \<Longrightarrow> matchRule w origin = Inr (ruleMatches (w ! 0) (w ! 1) origin)"
  by (auto simp: matchRule_def at_def ruleMatches_def HasPrefix_prefix HasSuffix_suffix
      split: bool.splits)

lemma wildcardLoop_wf:
  "\<forall>w \<in> set ws. 2 \<le> length w \<Longrightarrow>
   wildcardLoop ws origin = Inr (\<exists>w \<in> set ws. ruleMatches (w ! 0) (w ! 1) origin)"
  by (induction ws) (auto simp: matchRule_pair split: bool.splits)

subsection \<open>Origin validation\<close>

lemma exactLoop_set: "exactLoop vs origin \<longleftrightarrow> origin \<in> set vs"
  by (induction vs) auto

lemma validateWildcardOrigin_twoPart:
  "twoPart g \<Longrightarrow>
   validateWildcardOrigin g origin =
     Inr (\<exists>w \<in> set (wildcardOrigins g). ruleMatches (w ! 0) (w ! 1) origin)"
  unfolding twoPart_def validateWildcardOrigin_def by (rule wildcardLoop_wf)

lemma wildcardLoop_passedOver:
  "passedOver ws origin \<Longrightarrow> wildcardLoop (ws @ rest) origin = wildcardLoop rest origin"
  by (induction ws) (auto simp: passedOver_def matchRule_pair)

lemma guarded_scan:
  "(if length (wildcardOrigins g) > 0 then validateWildcardOrigin g origin else Inr False)
     = wildcardLoop (wildcardOrigins g) origin"
  by (simp add: validateWildcardOrigin_def)

lemma validateOrigin_late:
  "\<not> allowAllOrigins g \<Longrightarrow> origin \<notin> set (allowOrigins g) \<Longrightarrow>
   validateOrigin g origin =
     (case wildcardLoop (wildcardOrigins g) origin of
        Inl e \<Rightarrow> Inl e
      | Inr True \<Rightarrow> Inr True
      | Inr False \<Rightarrow> (case allowOriginFunc g of Some f \<Rightarrow> f origin | None \<Rightarrow> Inr False))"
  unfolding validateOrigin_def guarded_scan by (simp add: exactLoop_set)

lemma isOriginValid_rule_hit:
  assumes "\<not> allowAllOrigins g" and "origin \<notin> set (allowOrigins g)"
    and "wildcardOrigins g = ws @ w # rest" and "passedOver ws origin"
    and "2 \<le> length w" and "ruleMatches (w ! 0) (w ! 1) origin"
  shows "isOriginValid g c origin = Inr True"
proof -
  have "wildcardLoop (wildcardOrigins g) origin = wildcardLoop (w # rest) origin"
    using assms(3,4) by (simp add: wildcardLoop_passedOver)
  also have "\<dots> = Inr True"
    using assms(5,6) by (simp add: matchRule_pair)
  finally have "validateOrigin g origin = Inr True"
    using assms(1,2) by (simp add: validateOrigin_late)
  then show ?thesis
    by (simp add: isOriginValid_def split: option.splits)
qed

lemma isOriginValid_rule_panic:
  assumes "\<not> allowAllOrigins g" and "origin \<notin> set (allowOrigins g)"
    and "wildcardOrigins g = ws @ w # rest" and "passedOver ws origin"
    and "length w < 2"
  shows "isOriginValid g c origin = Inl IndexOutOfRange"
proof -
  have "wildcardLoop (wildcardOrigins g) origin = wildcardLoop (w # rest) origin"
    using assms(3,4) by (simp add: wildcardLoop_passedOver)
  also have "\<dots> = Inl IndexOutOfRange"
    using assms(5) by (simp add: matchRule_short)
  finally have "validateOrigin g origin = Inl IndexOutOfRange"
    using assms(1,2) by (simp add: validateOrigin_late)
  then show ?thesis
    by (simp add: isOriginValid_def)
qed

lemma validateOrigin_after_rules:
  assumes "\<not> allowAllOrigins g" and "origin \<notin> set (allowOrigins g)"
    and "passedOver (wildcardOrigins g) origin"
  shows "validateOrigin g origin =
           (case allowOriginFunc g of Some f \<Rightarrow> f origin | None \<Rightarrow> Inr False)"
proof -
  have "wildcardLoop (wildcardOrigins g) origin = Inr False"
    using wildcardLoop_passedOver [OF assms(3), of "[]"] by simp
  then show ?thesis
    using assms(1,2) by (simp add: validateOrigin_late)
qed

lemma isOriginValid_declined:
  assumes "\<not> allowAllOrigins g" and "origin \<notin> set (allowOrigins g)"
    and "passedOver (wildcardOrigins g) origin" and "plainDeclines g origin"
  shows "isOriginValid g c origin =
           (case allowOriginWithContextFunc g of Some h \<Rightarrow> h c origin | None \<Rightarrow> Inr False)"
proof -
  have "validateOrigin g origin = Inr False"
    using validateOrigin_after_rules [OF assms(1-3)] assms(4)
    by (simp add: plainDeclines_def split: option.splits)
  then show ?thesis
    by (simp add: isOriginValid_def split: option.splits)
qed

lemma isOriginValid_early:
  "allowAllOrigins g \<or> origin \<in> set (allowOrigins g) \<Longrightarrow> isOriginValid g c origin = Inr True"
  by (auto simp: isOriginValid_def validateOrigin_def exactLoop_set split: option.splits)

subsection \<open>Running the middleware\<close>

lemma added_append [simp]: "added c (c\<lparr>effects := effects c @ es\<rparr>) = es"
  by (simp add: added_def)

lemma response_append:
  "response r0 (c\<lparr>effects := effects c @ es\<rparr>) = foldl perform (response r0 c) es"
  by (simp add: response_def)

lemma applyCors_rejected:
  "crossOrigin c origin \<Longrightarrow> isOriginValid g c origin = Inr False \<Longrightarrow>
   applyCors g c = Inr (c\<lparr>effects := effects c @ [CallAbortWithStatus 403]\<rparr>)"
  by (auto simp: applyCors_def crossOrigin_def AbortWithStatus_def Let_def)

lemma applyCors_accepted:
  "crossOrigin c origin \<Longrightarrow> isOriginValid g c origin = Inr True \<Longrightarrow>
   applyCors g c =
     Inr (c\<lparr>effects := effects c @
            WriteEntries (if Method (Request c) = ''OPTIONS'' then preflightHeaders g
                          else normalHeaders g)
            # (if allowAllOrigins g then []
               else [CallHeader ''Access-Control-Allow-Origin'' origin])
            @ (if Method (Request c) = ''OPTIONS''
               then [CallAbortWithStatus (optionsResponseStatusCode g)] else [])\<rparr>)"
  by (auto simp: applyCors_def crossOrigin_def AbortWithStatus_def Context_Header_def
      handlePreflight_def handleNormal_def Let_def)

lemma IsAborted_append:
  "IsAborted (c\<lparr>effects := effects c @ es @ [CallAbortWithStatus code]\<rparr>)"
  by (simp add: IsAborted_def)

subsection \<open>Building the policy\<close>

lemma promoteLoop_eq:
  "promoteLoop os config = config\<lparr>AllowAllOrigins := (AllowAllOrigins config \<or> ''*'' \<in> set os)\<rparr>"
  by (induction os arbitrary: config) auto

lemma newCors_status:
  "newCors H config = Inr g \<Longrightarrow>
   optionsResponseStatusCode g =
     (if OptionsResponseStatusCode config = 0 then 204 else OptionsResponseStatusCode config)"
  by (auto simp: newCors_def promoteLoop_eq Let_def split: option.splits if_splits)

subsection \<open>Allowlist and label scans\<close>

lemma whiteLoop_skip:
  "ContainsSlash e \<Longrightarrow> ParseCIDR L e = None \<Longrightarrow>
   whiteLoop L ip ipAddr (xs @ e # ys) = whiteLoop L ip ipAddr (xs @ ys)"
  by (induction xs) (auto split: option.splits)

lemma labelLoop_passes:
  "\<forall>p \<in> set ps. passes M label p \<Longrightarrow> labelLoop M label (ps @ rest) = labelLoop M label rest"
  by (induction ps) (auto simp: passes_def)

lemma labelLoop_False:
  "labelLoop M label ps = False \<Longrightarrow> \<exists>p \<in> set ps. hits M label p"
  by (induction ps) (auto simp: hits_def split: if_splits sum.splits)

lemma checkLabel_loop: "checkLabel M label ps = labelLoop M label ps"
  by (cases ps) (simp_all add: checkLabel_def)

subsection \<open>Unfolding sets for concrete runs\<close>

lemmas cors_run =
  applyCors_def Let_def isOriginValid_def validateOrigin_def validateWildcardOrigin_def
  matchRule_def at_def HasPrefix_def HasSuffix_def AbortWithStatus_def Context_Header_def
  handlePreflight_def handleNormal_def IsAborted_def response_def echoes_def added_def
  crossOrigin_def Get_def ruleMatches_def suffix_to_prefix

lemmas examples =
  exampleContext_def examplePolicy_def examplePromoted_def exampleResponse_def
  exampleConfig_def exampleHelpers_def brokenPolicy_def

lemmas white_run =
  isIPWhite_def ip_white_New_def WithIpWhite_def ContainsSlash_def AbortWithStatus_def
  IsAborted_def response_def added_def Get_def Let_def

section \<open>The claims\<close>

text \<open>
  C1. Origin validation makes its tests in this order, and the first that succeeds
  accepts without the later ones being made: (1) the allow-all flag; (2) an exact entry
  of \<open>allowOrigins\<close>; (3) the wildcard rules, in their order; (4) the plain predicate,
  when configured; (5) the context-aware predicate, when configured; when none succeeds
  the origin is rejected. Each line below assumes nothing about the tests after the one
  that decides: the later rules may lack their parts and the later predicates may panic.
  That a test is made before the next one shows in its panic: a rule without its two
  parts, reached before any rule matches, panics whatever the predicates would answer,
  and a panic of the plain predicate comes out whatever the context-aware one would
  answer.
\<close>

theorem origin_validation_order:
  "(allowAllOrigins g \<longrightarrow> isOriginValid g c origin = Inr True)
   \<and> (\<not> allowAllOrigins g \<and> origin \<in> set (allowOrigins g) \<longrightarrow>
        isOriginValid g c origin = Inr True)
   \<and> (\<not> allowAllOrigins g \<and> origin \<notin> set (allowOrigins g)
        \<and> wildcardOrigins g = ws @ w # rest \<and> passedOver ws origin \<longrightarrow>
          (2 \<le> length w \<and> ruleMatches (w ! 0) (w ! 1) origin \<longrightarrow>
             isOriginValid g c origin = Inr True)
        \<and> (length w < 2 \<longrightarrow> isOriginValid g c origin = Inl IndexOutOfRange))
   \<and> (\<not> allowAllOrigins g \<and> origin \<notin> set (allowOrigins g)
        \<and> passedOver (wildcardOrigins g) origin \<longrightarrow>
          (allowOriginFunc g = Some f \<and> f origin = Inr True \<longrightarrow>
             isOriginValid g c origin = Inr True)
        \<and> (allowOriginFunc g = Some f \<and> f origin = Inl e \<longrightarrow>
             isOriginValid g c origin = Inl e)
        \<and> (plainDeclines g origin \<and> allowOriginWithContextFunc g = Some h \<longrightarrow>
             isOriginValid g c origin = h c origin)
        \<and> (plainDeclines g origin \<and> allowOriginWithContextFunc g = None \<longrightarrow>
             isOriginValid g c origin = Inr False))"
proof (intro conjI impI)
  assume "allowAllOrigins g"
  then show "isOriginValid g c origin = Inr True"
    by (simp add: isOriginValid_early)
next
  assume "\<not> allowAllOrigins g \<and> origin \<in> set (allowOrigins g)"
  then show "isOriginValid g c origin = Inr True"
    by (simp add: isOriginValid_early)
next
  assume "\<not> allowAllOrigins g \<and> origin \<notin> set (allowOrigins g)
        \<and> wildcardOrigins g = ws @ w # rest \<and> passedOver ws origin"
    and "2 \<le> length w \<and> ruleMatches (w ! 0) (w ! 1) origin"
  then show "isOriginValid g c origin = Inr True"
    using isOriginValid_rule_hit [of g origin ws w rest c] by simp
next
  assume "\<not> allowAllOrigins g \<and> origin \<notin> set (allowOrigins g)
        \<and> wildcardOrigins g = ws @ w # rest \<and> passedOver ws origin"
    and "length w < 2"
  then show "isOriginValid g c origin = Inl IndexOutOfRange"
    using isOriginValid_rule_panic [of g origin ws w rest c] by simp
next
  assume a: "\<not> allowAllOrigins g \<and> origin \<notin> set (allowOrigins g)
        \<and> passedOver (wildcardOrigins g) origin"
    and b: "allowOriginFunc g = Some f \<and> f origin = Inr True"
  have "validateOrigin g origin = Inr True"
    using validateOrigin_after_rules [of g origin] a b by simp
  then show "isOriginValid g c origin = Inr True"
    by (simp add: isOriginValid_def split: option.splits)
next
  assume a: "\<not> allowAllOrigins g \<and> origin \<notin> set (allowOrigins g)
        \<and> passedOver (wildcardOrigins g) origin"
    and b: "allowOriginFunc g = Some f \<and> f origin = Inl e"
  have "validateOrigin g origin = Inl e"
    using validateOrigin_after_rules [of g origin] a b by simp
  then show "isOriginValid g c origin = Inl e"
    by (simp add: isOriginValid_def)
next
  assume "\<not> allowAllOrigins g \<and> origin \<notin> set (allowOrigins g)
        \<and> passedOver (wildcardOrigins g) origin"
    and "plainDeclines g origin \<and> allowOriginWithContextFunc g = Some h"
  then show "isOriginValid g c origin = h c origin"
    using isOriginValid_declined [of g origin c] by simp
next
  assume "\<not> allowAllOrigins g \<and> origin \<notin> set (allowOrigins g)
        \<and> passedOver (wildcardOrigins g) origin"
    and "plainDeclines g origin \<and> allowOriginWithContextFunc g = None"
  then show "isOriginValid g c origin = Inr False"
    using isOriginValid_declined [of g origin c] by simp
qed

text \<open>The statement at concrete inputs.\<close>

theorem origin_validation_order_witness:
  "isOriginValid (trapPolicy\<lparr>allowAllOrigins := True, wildcardOrigins := [ [] ]\<rparr>)
      (exampleContext ''GET'' ''https://evil.test'') ''https://evil.test'' = Inr True
   \<and> ''https://example.com'' \<in> set (allowOrigins trapPolicy)
   \<and> isOriginValid (trapPolicy\<lparr>wildcardOrigins := [ [] ]\<rparr>)
        (exampleContext ''GET'' ''https://example.com'') ''https://example.com'' = Inr True
   \<and> wildcardOrigins trapPolicy = [] @ [''https://'', ''.example.com''] # [ [] ]
   \<and> ruleMatches ''https://'' ''.example.com'' ''https://api.example.com''
   \<and> isOriginValid trapPolicy
        (exampleContext ''GET'' ''https://api.example.com'') ''https://api.example.com''
        = Inr True
   \<and> passedOver [ [''https://'', ''.example.com''] ] ''https://special.test''
   \<and> isOriginValid
        (trapPolicy\<lparr>allowOriginFunc := Some (\<lambda>origin. Inr True),
                     allowOriginWithContextFunc := Some (\<lambda>c origin. Inr True)\<rparr>)
        (exampleContext ''GET'' ''https://special.test'') ''https://special.test''
        = Inl IndexOutOfRange
   \<and> isOriginValid (examplePolicy\<lparr>allowOriginWithContextFunc := Some trapContextFunc\<rparr>)
        (exampleContext ''GET'' ''https://special.test'') ''https://special.test''
        = Inr True
   \<and> isOriginValid
        (examplePolicy\<lparr>allowOriginFunc := Some trapFunc,
                        allowOriginWithContextFunc := Some (\<lambda>c origin. Inr True)\<rparr>)
        (exampleContext ''GET'' ''https://evil.test'') ''https://evil.test''
        = Inl (CallbackPanic ''allowOriginFunc called'')
   \<and> plainDeclines examplePolicy ''https://evil.test''
   \<and> isOriginValid
        (examplePolicy\<lparr>allowOriginWithContextFunc :=
            Some (\<lambda>c origin. Inr (Host (Request c) = ''api.test''))\<rparr>)
        (exampleContext ''GET'' ''https://evil.test'') ''https://evil.test''
        = Inr True
   \<and> isOriginValid examplePolicy
        (exampleContext ''GET'' ''https://evil.test'') ''https://evil.test''
        = Inr False"
  using
    origin_validation_order
      [where g = "trapPolicy\<lparr>allowAllOrigins := True, wildcardOrigins := [ [] ]\<rparr>"
        and c = "exampleContext ''GET'' ''https://evil.test''"
        and origin = "''https://evil.test''"
        and ws = "[]" and w = "[]" and rest = "[]"
        and f = trapFunc and e = IndexOutOfRange and h = trapContextFunc]
    origin_validation_order
      [where g = "trapPolicy\<lparr>wildcardOrigins := [ [] ]\<rparr>"
        and c = "exampleContext ''GET'' ''https://example.com''"
        and origin = "''https://example.com''"
        and ws = "[]" and w = "[]" and rest = "[]"
        and f = trapFunc and e = IndexOutOfRange and h = trapContextFunc]
    origin_validation_order
      [where g = trapPolicy
        and c = "exampleContext ''GET'' ''https://api.example.com''"
        and origin = "''https://api.example.com''"
        and ws = "[]" and w = "[''https://'', ''.example.com'']" and rest = "[ [] ]"
        and f = trapFunc and e = IndexOutOfRange and h = trapContextFunc]
    origin_validation_order
      [where g = "trapPolicy\<lparr>allowOriginFunc := Some (\<lambda>origin. Inr True),
                     allowOriginWithContextFunc := Some (\<lambda>c origin. Inr True)\<rparr>"
        and c = "exampleContext ''GET'' ''https://special.test''"
        and origin = "''https://special.test''"
        and ws = "[ [''https://'', ''.example.com''] ]" and w = "[]" and rest = "[]"
        and f = "\<lambda>origin. Inr True" and e = IndexOutOfRange and h = "\<lambda>c origin. Inr True"]
    origin_validation_order
      [where g = "examplePolicy\<lparr>allowOriginWithContextFunc := Some trapContextFunc\<rparr>"
        and c = "exampleContext ''GET'' ''https://special.test''"
        and origin = "''https://special.test''"
        and ws = "[]" and w = "[]" and rest = "[]"
        and f = "\<lambda>origin. Inr (origin = ''https://special.test'')"
        and e = IndexOutOfRange and h = trapContextFunc]
    origin_validation_order
      [where g = "examplePolicy\<lparr>allowOriginFunc := Some trapFunc,
                        allowOriginWithContextFunc := Some (\<lambda>c origin. Inr True)\<rparr>"
        and c = "exampleContext ''GET'' ''https://evil.test''"
        and origin = "''https://evil.test''"
        and ws = "[]" and w = "[]" and rest = "[]"
        and f = trapFunc and e = "CallbackPanic ''allowOriginFunc called''"
        and h = "\<lambda>c origin. Inr True"]
    origin_validation_order
      [where g = "examplePolicy\<lparr>allowOriginWithContextFunc :=
            Some (\<lambda>c origin. Inr (Host (Request c) = ''api.test''))\<rparr>"
        and c = "exampleContext ''GET'' ''https://evil.test''"
        and origin = "''https://evil.test''"
        and ws = "[]" and w = "[]" and rest = "[]"
        and f = trapFunc and e = IndexOutOfRange
        and h = "\<lambda>c origin. Inr (Host (Request c) = ''api.test'')"]
    origin_validation_order
      [where g = examplePolicy
        and c = "exampleContext ''GET'' ''https://evil.test''"
        and origin = "''https://evil.test''"
        and ws = "[]" and w = "[]" and rest = "[]"
        and f = trapFunc and e = IndexOutOfRange and h = trapContextFunc]
  by (simp add: examplePolicy_def trapPolicy_def trapFunc_def trapContextFunc_def
      exampleContext_def passedOver_def plainDeclines_def ruleMatches_def suffix_to_prefix)

text \<open>
  C2. A stored rule \<open>(pre, suf)\<close> matches an origin exactly when \<open>pre\<close> is \<open>*\<close> and
  the origin ends with \<open>suf\<close>, or \<open>suf\<close> is \<open>*\<close> and the origin starts with \<open>pre\<close>, or the
  origin starts with \<open>pre\<close> and ends with \<open>suf\<close>. \<open>validateWildcardOrigin\<close> returns \<open>true\<close>
  exactly when some stored rule matches, and \<open>false\<close> otherwise, in particular for the
  empty rule list.
\<close>

theorem wildcard_rule_matching:
  "matchRule [pre, suf] origin =
     Inr ((pre = ''*'' \<and> suffix suf origin)
          \<or> (suf = ''*'' \<and> prefix pre origin)
          \<or> (prefix pre origin \<and> suffix suf origin))
   \<and> (wildcardOrigins g = map (\<lambda>(p, s). [p, s]) rules \<longrightarrow>
        validateWildcardOrigin g origin
          = Inr (\<exists>(p, s) \<in> set rules. ruleMatches p s origin))
   \<and> (wildcardOrigins g = [] \<longrightarrow> validateWildcardOrigin g origin = Inr False)"
proof (intro conjI impI)
  show "matchRule [pre, suf] origin =
     Inr ((pre = ''*'' \<and> suffix suf origin)
          \<or> (suf = ''*'' \<and> prefix pre origin)
          \<or> (prefix pre origin \<and> suffix suf origin))"
    using matchRule_pair [of "[pre, suf]" origin] by (simp add: ruleMatches_def)
next
  assume rules: "wildcardOrigins g = map (\<lambda>(p, s). [p, s]) rules"
  then have "twoPart g"
    by (auto simp: twoPart_def)
  then have "validateWildcardOrigin g origin =
     Inr (\<exists>w \<in> set (wildcardOrigins g). ruleMatches (w ! 0) (w ! 1) origin)"
    by (rule validateWildcardOrigin_twoPart)
  also have "(\<exists>w \<in> set (wildcardOrigins g). ruleMatches (w ! 0) (w ! 1) origin)
      \<longleftrightarrow> (\<exists>(p, s) \<in> set rules. ruleMatches p s origin)"
    unfolding rules by (auto simp: split_def)
  finally show "validateWildcardOrigin g origin
          = Inr (\<exists>(p, s) \<in> set rules. ruleMatches p s origin)" .
next
  assume "wildcardOrigins g = []"
  then show "validateWildcardOrigin g origin = Inr False"
    by (simp add: validateWildcardOrigin_def)
qed

text \<open>The statement at concrete inputs.\<close>

theorem wildcard_rule_matching_witness:
  "wildcardOrigins examplePolicy = map (\<lambda>(p, s). [p, s]) [(''https://'', ''.example.com'')]
   \<and> validateWildcardOrigin examplePolicy ''https://api.example.com'' = Inr True
   \<and> validateWildcardOrigin examplePolicy ''https://example.com'' = Inr False
   \<and> validateWildcardOrigin (examplePolicy\<lparr>wildcardOrigins := []\<rparr>) ''https://api.example.com''
        = Inr False"
  using wildcard_rule_matching [of "''https://''" "''.example.com''" "''https://api.example.com''"
      examplePolicy "[(''https://'', ''.example.com'')]"]
    wildcard_rule_matching [of "''https://''" "''.example.com''" "''https://example.com''"
      examplePolicy "[(''https://'', ''.example.com'')]"]
    wildcard_rule_matching [of "''https://''" "''.example.com''" "''https://api.example.com''"
      "examplePolicy\<lparr>wildcardOrigins := []\<rparr>" "[]"]
  by (simp add: examplePolicy_def ruleMatches_def suffix_to_prefix)

text \<open>
  C3. A cross-origin request whose origin fails every test (no allow-all, no exact
  entry, no matching wildcard rule, each configured predicate false) is answered by the
  single operation \<open>c.AbortWithStatus(403)\<close>: the status is 403, no response header has
  been written, the context is aborted and no later handler of the chain runs.
\<close>

theorem rejected_origin_aborts:
  assumes "crossOrigin c origin"
    and "\<not> allowAllOrigins g"
    and "origin \<notin> set (allowOrigins g)"
    and "\<forall>w \<in> set (wildcardOrigins g). 2 \<le> length w \<and> \<not> ruleMatches (w ! 0) (w ! 1) origin"
    and "\<forall>f. allowOriginFunc g = Some f \<longrightarrow> f origin = Inr False"
    and "\<forall>h. allowOriginWithContextFunc g = Some h \<longrightarrow> h c origin = Inr False"
  shows "\<exists>c'. applyCors g c = Inr c'
           \<and> added c c' = [CallAbortWithStatus 403]
           \<and> respStatus (response r0 c') = 403
           \<and> respHeader (response r0 c') = respHeader (response r0 c)
           \<and> IsAborted c'
           \<and> serve (applyCors g # rest) c = Inr c'"
proof -
  have "passedOver (wildcardOrigins g) origin"
    using assms(4) by (simp add: passedOver_def)
  moreover have "plainDeclines g origin"
    using assms(5) by (simp add: plainDeclines_def split: option.splits)
  ultimately have "isOriginValid g c origin =
      (case allowOriginWithContextFunc g of Some h \<Rightarrow> h c origin | None \<Rightarrow> Inr False)"
    using assms(2,3) by (simp add: isOriginValid_declined)
  then have "isOriginValid g c origin = Inr False"
    using assms(6) by (simp split: option.splits)
  with assms(1) have run: "applyCors g c = Inr (c\<lparr>effects := effects c @ [CallAbortWithStatus 403]\<rparr>)"
    by (rule applyCors_rejected)
  have ab: "IsAborted (c\<lparr>effects := effects c @ [CallAbortWithStatus 403]\<rparr>)"
    using IsAborted_append [of c "[]" 403] by simp
  show ?thesis
    using run ab by (simp add: response_append)
qed

text \<open>The statement at concrete inputs.\<close>

theorem rejected_origin_aborts_witness:
  "crossOrigin (exampleContext ''GET'' ''https://evil.test'') ''https://evil.test''
   \<and> \<not> allowAllOrigins examplePolicy
   \<and> ''https://evil.test'' \<notin> set (allowOrigins examplePolicy)
   \<and> list_all (\<lambda>w. 2 \<le> length w \<and> \<not> ruleMatches (w ! 0) (w ! 1) ''https://evil.test'')
         (wildcardOrigins examplePolicy)
   \<and> (case allowOriginFunc examplePolicy of
         Some f \<Rightarrow> f ''https://evil.test'' = Inr False
       | None \<Rightarrow> True)
   \<and> allowOriginWithContextFunc examplePolicy = None
   \<and> (\<exists>c'. applyCors examplePolicy (exampleContext ''GET'' ''https://evil.test'') = Inr c'
          \<and> effects c' = [CallAbortWithStatus 403]
          \<and> respStatus (response exampleResponse c') = 403
          \<and> respHeader (response exampleResponse c') = Map.empty
          \<and> serve [applyCors examplePolicy, (\<lambda>c. Inl IndexOutOfRange)]
               (exampleContext ''GET'' ''https://evil.test'') = Inr c')"
  using rejected_origin_aborts [of "exampleContext ''GET'' ''https://evil.test''"
      "''https://evil.test''" examplePolicy exampleResponse "[\<lambda>c. Inl IndexOutOfRange]"]
  by (simp add: cors_run examples)

text \<open>
  C4. For an accepted cross-origin request, whatever its method: when
  \<open>allowAllOrigins\<close> is false, \<open>applyCors\<close> calls
  \<open>c.Header("Access-Control-Allow-Origin", origin)\<close> exactly once, with the request's
  \<open>Origin\<close> value, and the response header then holds exactly that value; when
  \<open>allowAllOrigins\<close> is true, \<open>applyCors\<close> makes no such call (no \<open>c.Header\<close> call at
  all): all it does is write the precomputed header set and, for \<open>OPTIONS\<close>, abort.
\<close>

theorem origin_echo:
  assumes "crossOrigin c origin"
    and "isOriginValid g c origin = Inr True"
  shows "\<exists>c'. applyCors g c = Inr c'
           \<and> (\<not> allowAllOrigins g \<longrightarrow>
                 echoes (added c c') = [origin]
                 \<and> respHeader (response r0 c') ''Access-Control-Allow-Origin'' = Some [origin])
           \<and> (allowAllOrigins g \<longrightarrow>
                 echoes (added c c') = []
                 \<and> (\<forall>e \<in> set (added c c'). \<forall>key v. e \<noteq> CallHeader key v)
                 \<and> added c c' =
                     (if Method (Request c) = ''OPTIONS''
                      then [WriteEntries (preflightHeaders g),
                            CallAbortWithStatus (optionsResponseStatusCode g)]
                      else [WriteEntries (normalHeaders g)]))"
proof -
  have "origin \<noteq> []"
    using assms(1) by (auto simp: crossOrigin_def)
  then show ?thesis
    using applyCors_accepted [OF assms]
    by (auto simp: response_append echoes_def)
qed

text \<open>The statement at concrete inputs.\<close>

theorem origin_echo_witness:
  "crossOrigin (exampleContext ''GET'' ''https://example.com'') ''https://example.com''
   \<and> isOriginValid examplePolicy (exampleContext ''GET'' ''https://example.com'')
        ''https://example.com'' = Inr True
   \<and> \<not> allowAllOrigins examplePolicy
   \<and> (\<exists>c'. applyCors examplePolicy (exampleContext ''GET'' ''https://example.com'') = Inr c'
          \<and> echoes (effects c') = [''https://example.com'']
          \<and> respHeader (response exampleResponse c') ''Access-Control-Allow-Origin''
              = Some [''https://example.com''])
   \<and> crossOrigin (exampleContext ''OPTIONS'' ''https://example.com'') ''https://example.com''
   \<and> isOriginValid examplePromoted (exampleContext ''OPTIONS'' ''https://example.com'')
        ''https://example.com'' = Inr True
   \<and> allowAllOrigins examplePromoted
   \<and> (\<exists>c'. applyCors examplePromoted (exampleContext ''OPTIONS'' ''https://example.com'')
            = Inr c'
          \<and> echoes (effects c') = [])"
  using origin_echo [of "exampleContext ''GET'' ''https://example.com''"
      "''https://example.com''" examplePolicy exampleResponse]
    origin_echo [of "exampleContext ''OPTIONS'' ''https://example.com''"
      "''https://example.com''" examplePromoted exampleResponse]
  by (simp add: cors_run examples)

text \<open>
  C5. \<open>newCors\<close> stores 204 as \<open>optionsResponseStatusCode\<close> when the configured
  value is 0, and the configured value otherwise. For an accepted cross-origin \<open>OPTIONS\<close>
  request \<open>applyCors\<close> performs, in this order: the write of every entry of
  \<open>preflightHeaders\<close>, the echo of the origin (unless allow-all), and last
  \<open>c.AbortWithStatus(optionsResponseStatusCode)\<close>. So every preflight entry is on the
  response (the \<open>Access-Control-Allow-Origin\<close> key is the echo's when it is made), the
  status is \<open>optionsResponseStatusCode\<close>, and no later handler of the chain runs.
\<close>

theorem preflight_terminates:
  "(newCors H config = Inr g' \<longrightarrow>
      optionsResponseStatusCode g' =
        (if OptionsResponseStatusCode config = 0 then 204
         else OptionsResponseStatusCode config))
   \<and> (crossOrigin c origin \<and> isOriginValid g c origin = Inr True
        \<and> Method (Request c) = ''OPTIONS'' \<longrightarrow>
      (\<exists>c'. applyCors g c = Inr c'
           \<and> added c c' =
               WriteEntries (preflightHeaders g)
               # (if allowAllOrigins g then []
                  else [CallHeader ''Access-Control-Allow-Origin'' origin])
               @ [CallAbortWithStatus (optionsResponseStatusCode g)]
           \<and> (\<forall>key v. preflightHeaders g key = Some v
                  \<and> (key = ''Access-Control-Allow-Origin'' \<longrightarrow> allowAllOrigins g)
                \<longrightarrow> respHeader (response r0 c') key = Some v)
           \<and> respStatus (response r0 c') = optionsResponseStatusCode g
           \<and> IsAborted c'
           \<and> serve (applyCors g # rest) c = Inr c'))"
proof (intro conjI impI)
  assume "newCors H config = Inr g'"
  then show "optionsResponseStatusCode g' =
        (if OptionsResponseStatusCode config = 0 then 204
         else OptionsResponseStatusCode config)"
    by (rule newCors_status)
next
  assume a: "crossOrigin c origin \<and> isOriginValid g c origin = Inr True
        \<and> Method (Request c) = ''OPTIONS''"
  then have nonempty: "origin \<noteq> []"
    by (auto simp: crossOrigin_def)
  let ?es = "WriteEntries (preflightHeaders g)
               # (if allowAllOrigins g then []
                  else [CallHeader ''Access-Control-Allow-Origin'' origin])"
  have run: "applyCors g c =
      Inr (c\<lparr>effects := effects c @ ?es @ [CallAbortWithStatus (optionsResponseStatusCode g)]\<rparr>)"
    using applyCors_accepted [of c origin g] a by simp
  have ab: "IsAborted (c\<lparr>effects := effects c @ ?es @ [CallAbortWithStatus (optionsResponseStatusCode g)]\<rparr>)"
    by (rule IsAborted_append)
  show "\<exists>c'. applyCors g c = Inr c'
           \<and> added c c' =
               WriteEntries (preflightHeaders g)
               # (if allowAllOrigins g then []
                  else [CallHeader ''Access-Control-Allow-Origin'' origin])
               @ [CallAbortWithStatus (optionsResponseStatusCode g)]
           \<and> (\<forall>key v. preflightHeaders g key = Some v
                  \<and> (key = ''Access-Control-Allow-Origin'' \<longrightarrow> allowAllOrigins g)
                \<longrightarrow> respHeader (response r0 c') key = Some v)
           \<and> respStatus (response r0 c') = optionsResponseStatusCode g
           \<and> IsAborted c'
           \<and> serve (applyCors g # rest) c = Inr c'"
    using run ab nonempty by (auto simp: response_append map_add_def)
qed

text \<open>The statement at concrete inputs.\<close>

theorem preflight_terminates_witness:
  "newCors exampleHelpers exampleConfig = Inr examplePromoted
   \<and> OptionsResponseStatusCode exampleConfig = 0
   \<and> optionsResponseStatusCode examplePromoted = 204
   \<and> crossOrigin (exampleContext ''OPTIONS'' ''https://example.com'') ''https://example.com''
   \<and> isOriginValid examplePolicy (exampleContext ''OPTIONS'' ''https://example.com'')
        ''https://example.com'' = Inr True
   \<and> Method (Request (exampleContext ''OPTIONS'' ''https://example.com'')) = ''OPTIONS''
   \<and> (\<exists>c'. applyCors examplePolicy (exampleContext ''OPTIONS'' ''https://example.com'')
            = Inr c'
          \<and> effects c' =
               [WriteEntries (preflightHeaders examplePolicy),
                CallHeader ''Access-Control-Allow-Origin'' ''https://example.com'',
                CallAbortWithStatus 204]
          \<and> respHeader (response exampleResponse c') ''Access-Control-Allow-Methods''
               = Some [''GET,POST'']
          \<and> respStatus (response exampleResponse c') = 204
          \<and> serve [applyCors examplePolicy, (\<lambda>c. Inl IndexOutOfRange)]
               (exampleContext ''OPTIONS'' ''https://example.com'') = Inr c')"
proof -
  have built: "newCors exampleHelpers exampleConfig = Inr examplePromoted"
    by (simp add: newCors_def exampleHelpers_def exampleConfig_def examplePromoted_def)
  have cross: "crossOrigin (exampleContext ''OPTIONS'' ''https://example.com'')
      ''https://example.com''"
    by (simp add: crossOrigin_def exampleContext_def Get_def)
  have valid: "isOriginValid examplePolicy (exampleContext ''OPTIONS'' ''https://example.com'')
        ''https://example.com'' = Inr True"
    by (simp add: isOriginValid_def validateOrigin_def examplePolicy_def)
  have meth: "Method (Request (exampleContext ''OPTIONS'' ''https://example.com'')) = ''OPTIONS''"
    by (simp add: exampleContext_def)
  show ?thesis
    using built cross valid meth
      preflight_terminates [of exampleHelpers exampleConfig examplePromoted
        "exampleContext ''OPTIONS'' ''https://example.com''" "''https://example.com''"
        examplePolicy exampleResponse "[\<lambda>c. Inl IndexOutOfRange]"]
    by (simp add: cors_run examples)
qed

text \<open>
  C6. When the \<open>Origin\<close> header is absent, or equals \<open>http://\<close> or \<open>https://\<close>
  followed by the request's own host, \<open>applyCors\<close> returns the context unchanged: no
  header written, no abort. This holds for every policy, also one whose origin validation
  would panic, since validation is not reached.
\<close>

theorem same_origin_passes_through:
  assumes "Header (Request c) ''Origin'' = None
           \<or> Get (Header (Request c)) ''Origin'' = ''http://'' @ Host (Request c)
           \<or> Get (Header (Request c)) ''Origin'' = ''https://'' @ Host (Request c)"
  shows "applyCors g c = Inr c"
  using assms by (auto simp: applyCors_def Let_def Get_def)

text \<open>The statement at concrete inputs.\<close>

theorem same_origin_passes_through_witness:
  "Get (Header (Request (exampleContext ''GET'' ''https://api.test''))) ''Origin''
     = ''https://'' @ Host (Request (exampleContext ''GET'' ''https://api.test''))
   \<and> isOriginValid brokenPolicy (exampleContext ''GET'' ''https://api.test'')
        ''https://api.test'' = Inl IndexOutOfRange
   \<and> applyCors brokenPolicy (exampleContext ''GET'' ''https://api.test'')
        = Inr (exampleContext ''GET'' ''https://api.test'')
   \<and> Header (Request (exampleClient ''10.0.0.7'')) ''Origin'' = None
   \<and> applyCors brokenPolicy (exampleClient ''10.0.0.7'') = Inr (exampleClient ''10.0.0.7'')"
  using same_origin_passes_through [of "exampleContext ''GET'' ''https://api.test''" brokenPolicy]
    same_origin_passes_through [of "exampleClient ''10.0.0.7''" brokenPolicy]
  by (simp add: exampleContext_def exampleClient_def Get_def brokenPolicy_def examplePolicy_def
      isOriginValid_def validateOrigin_def validateWildcardOrigin_def matchRule_def at_def)

text \<open>
  C7. When some entry of \<open>AllowOrigins\<close> is exactly \<open>*\<close> (and the configuration
  validates), \<open>newCors\<close> builds a policy with \<open>allowAllOrigins\<close> set, which accepts every
  origin; and it is the very policy \<open>newCors\<close> builds from the same configuration with the
  allow-all flag set explicitly, whenever that configuration validates.
\<close>

theorem star_entry_promotes:
  assumes "''*'' \<in> set (AllowOrigins config)"
    and "Validate H config = None"
  shows "\<exists>g. newCors H config = Inr g
           \<and> allowAllOrigins g
           \<and> (\<forall>c origin. isOriginValid g c origin = Inr True)
           \<and> (Validate H (config\<lparr>AllowAllOrigins := True\<rparr>) = None \<longrightarrow>
                newCors H (config\<lparr>AllowAllOrigins := True\<rparr>) = Inr g)"
  using assms by (auto simp: newCors_def promoteLoop_eq Let_def isOriginValid_early)

text \<open>The statement at concrete inputs.\<close>

theorem star_entry_promotes_witness:
  "''*'' \<in> set (AllowOrigins exampleConfig)
   \<and> Validate exampleHelpers exampleConfig = None
   \<and> Validate exampleHelpers (exampleConfig\<lparr>AllowAllOrigins := True\<rparr>) = None
   \<and> newCors exampleHelpers exampleConfig = Inr examplePromoted
   \<and> newCors exampleHelpers (exampleConfig\<lparr>AllowAllOrigins := True\<rparr>) = Inr examplePromoted
   \<and> allowAllOrigins examplePromoted"
proof -
  have built: "newCors exampleHelpers exampleConfig = Inr examplePromoted"
    by (simp add: newCors_def exampleHelpers_def exampleConfig_def examplePromoted_def)
  have star: "''*'' \<in> set (AllowOrigins exampleConfig)"
    by (simp add: exampleConfig_def)
  have ok: "Validate exampleHelpers exampleConfig = None"
    by (simp add: exampleHelpers_def exampleConfig_def)
  have ok': "Validate exampleHelpers (exampleConfig\<lparr>AllowAllOrigins := True\<rparr>) = None"
    by (simp add: exampleHelpers_def exampleConfig_def)
  show ?thesis
    using star_entry_promotes [OF star ok] built star ok ok'
    by auto
qed

text \<open>
  C8. When \<open>net.ParseIP\<close> returns \<open>nil\<close> for the client address, \<open>isIPWhite\<close> returns
  \<open>false\<close> for every allowlist, and the handler built by \<open>New\<close> answers with
  \<open>c.AbortWithStatus(403)\<close>: status 403, context aborted, no later handler runs.
\<close>

theorem unparseable_client_fails_closed:
  "(ParseIP L ip = None \<longrightarrow> isIPWhite L ip whitelist = False)
   \<and> (ParseIP L (ClientIP L c) = None \<longrightarrow>
        ip_white_New L opts c = AbortWithStatus c 403
        \<and> added c (ip_white_New L opts c) = [CallAbortWithStatus 403]
        \<and> respStatus (response r0 (ip_white_New L opts c)) = 403
        \<and> IsAborted (ip_white_New L opts c)
        \<and> serve ((\<lambda>c. Inr (ip_white_New L opts c)) # rest) c = Inr (AbortWithStatus c 403))"
  by (auto simp: isIPWhite_def ip_white_New_def AbortWithStatus_def Let_def response_append
      IsAborted_def)

text \<open>The statement at concrete inputs.\<close>

theorem unparseable_client_fails_closed_witness:
  "ParseIP exampleNet ''gateway'' = None
   \<and> isIPWhite exampleNet ''gateway'' [''10.0.0.7'', ''gateway''] = False
   \<and> ParseIP exampleNet (ClientIP exampleNet (exampleClient ''gateway'')) = None
   \<and> effects (ip_white_New exampleNet [WithIpWhite [''10.0.0.7'', ''gateway'']]
                (exampleClient ''gateway''))
        = [CallAbortWithStatus 403]"
  using unparseable_client_fails_closed [of exampleNet "''gateway''" "[''10.0.0.7'', ''gateway'']"
      "exampleClient ''gateway''" "[WithIpWhite [''10.0.0.7'', ''gateway'']]" exampleResponse "[]"]
  by (simp add: white_run exampleNet_def exampleClient_def)

text \<open>
  C9. An allowlist entry that contains \<open>/\<close> and does not parse as a CIDR block is
  skipped: \<open>isIPWhite\<close> (a total function: no error arises) gives the same answer with the
  entry, wherever it stands in the list, as without it, and the entry alone matches no
  address.
\<close>

theorem malformed_cidr_skipped:
  assumes "ContainsSlash e"
    and "ParseCIDR L e = None"
  shows "isIPWhite L ip (xs @ e # ys) = isIPWhite L ip (xs @ ys)
         \<and> isIPWhite L ip [e] = False"
proof
  show "isIPWhite L ip (xs @ e # ys) = isIPWhite L ip (xs @ ys)"
    using assms by (simp add: isIPWhite_def whiteLoop_skip split: option.splits)
  show "isIPWhite L ip [e] = False"
    using assms by (simp add: isIPWhite_def split: option.splits)
qed

text \<open>The statement at concrete inputs.\<close>

theorem malformed_cidr_skipped_witness:
  "ContainsSlash ''10.0.1.0/33''
   \<and> ParseCIDR exampleNet ''10.0.1.0/33'' = None
   \<and> isIPWhite exampleNet ''10.0.1.9'' ([''10.0.0.7''] @ ''10.0.1.0/33'' # [''10.0.1.0/24''])
        = True
   \<and> isIPWhite exampleNet ''10.0.1.9'' ([''10.0.0.7''] @ [''10.0.1.0/24'']) = True
   \<and> isIPWhite exampleNet ''10.0.1.9'' [''10.0.1.0/33''] = False"
  using malformed_cidr_skipped [of "''10.0.1.0/33''" exampleNet "''10.0.1.9''" "[''10.0.0.7'']"
      "[''10.0.1.0/24'']"]
  by (simp add: white_run exampleNet_def)

text \<open>
  C10. \<open>checkLabel\<close> returns \<open>true\<close> for the empty pattern list. Otherwise it scans in
  order: after patterns that are non-empty, compile and do not match, it returns \<open>true\<close> at
  an empty pattern or one that fails to compile, \<open>false\<close> at a pattern that matches, and
  \<open>true\<close> when the list ends. A \<open>false\<close> result is therefore always due to a pattern
  that compiled and matched the label, never to a bad pattern.
\<close>

theorem checkLabel_scan:
  "checkLabel M label [] = True
   \<and> ((\<forall>p \<in> set ps. passes M label p) \<and> bad M label q \<longrightarrow>
        checkLabel M label (ps @ q # rest) = True)
   \<and> ((\<forall>p \<in> set ps. passes M label p) \<and> hits M label q \<longrightarrow>
        checkLabel M label (ps @ q # rest) = False)
   \<and> ((\<forall>p \<in> set ps. passes M label p) \<longrightarrow> checkLabel M label ps = True)
   \<and> (checkLabel M label patterns = False \<longrightarrow> (\<exists>p \<in> set patterns. hits M label p))"
proof (intro conjI impI)
  show "checkLabel M label [] = True"
    by (simp add: checkLabel_def)
next
  assume "(\<forall>p \<in> set ps. passes M label p) \<and> bad M label q"
  then show "checkLabel M label (ps @ q # rest) = True"
    by (auto simp: checkLabel_loop labelLoop_passes bad_def split: sum.splits)
next
  assume "(\<forall>p \<in> set ps. passes M label p) \<and> hits M label q"
  then show "checkLabel M label (ps @ q # rest) = False"
    by (auto simp: checkLabel_loop labelLoop_passes hits_def)
next
  assume "\<forall>p \<in> set ps. passes M label p"
  then show "checkLabel M label ps = True"
    using labelLoop_passes [of ps M label "[]"] by (simp add: checkLabel_loop)
next
  assume "checkLabel M label patterns = False"
  then show "\<exists>p \<in> set patterns. hits M label p"
    by (simp add: checkLabel_loop labelLoop_False)
qed

text \<open>The statement at concrete inputs.\<close>

theorem checkLabel_scan_witness:
  "passes exampleMatch ''GET'' ''POST''
   \<and> bad exampleMatch ''GET'' ''(''
   \<and> checkLabel exampleMatch ''GET'' ([''POST''] @ ''('' # [''GET'']) = True
   \<and> hits exampleMatch ''GET'' ''GE''
   \<and> checkLabel exampleMatch ''GET'' ([''POST''] @ ''GE'' # [''('']) = False
   \<and> checkLabel exampleMatch ''GET'' [''POST''] = True
   \<and> checkLabel exampleMatch ''GET'' [''POST'', ''GET''] = False
   \<and> (\<exists>p \<in> set [''POST'', ''GET'']. hits exampleMatch ''GET'' p)"
  using checkLabel_scan [of exampleMatch "''GET''" "[''POST'']" "''(''" "[''GET'']"
      "[''POST'', ''GET'']"]
    checkLabel_scan [of exampleMatch "''GET''" "[''POST'']" "''GE''" "[''('']"
      "[''POST'', ''GET'']"]
  by (simp add: passes_def bad_def hits_def exampleMatch_def checkLabel_def)

end
